theory Spec2Isabelle
  imports Complex_Main "HOL-Library.Char_ord" "HOL-Library.List_Lexorder"
begin

section \<open>JavaScript strings\<close>

text \<open>
  Strings are character lists. The three string methods the server uses are written out:
  \<open>toLowerCase\<close> (on the ASCII letters), \<open>String.prototype.includes\<close> (the substring
  test, here \<open>str_includes\<close>) and \<open>endsWith\<close>.
\<close>

definition toLowerCase_char :: "char \<Rightarrow> char" where
  "toLowerCase_char c =
     (case map_of (zip ''ABCDEFGHIJKLMNOPQRSTUVWXYZ'' ''abcdefghijklmnopqrstuvwxyz'') c of
        Some l \<Rightarrow> l
      | None \<Rightarrow> c)"

definition toLowerCase :: "string \<Rightarrow> string" where
  "toLowerCase s = map toLowerCase_char s"

fun startsWith :: "string \<Rightarrow> string \<Rightarrow> bool" where
  "startsWith s [] = True"
| "startsWith [] (p # ps) = False"
| "startsWith (c # cs) (p # ps) = (c = p \<and> startsWith cs ps)"

fun str_includes :: "string \<Rightarrow> string \<Rightarrow> bool" where
  "str_includes [] t = (t = [])"
| "str_includes (c # cs) t = (startsWith (c # cs) t \<or> str_includes cs t)"

definition endsWith :: "string \<Rightarrow> string \<Rightarrow> bool" where
  "endsWith s t = startsWith (rev s) (rev t)"

text \<open>\<open>Array.prototype.includes\<close> on an array of values compared by equality.\<close>

definition array_includes :: "'a list \<Rightarrow> 'a \<Rightarrow> bool" where
  "array_includes xs x = (x \<in> set xs)"

section \<open>The uploaded file and the platform's clock and random numbers\<close>

text \<open>
  The file object multer hands to the route: the form field it came in, the client's
  file name, the declared MIME type and the size in bytes.
\<close>

record uploaded_file =
  fieldname :: string
  originalname :: string
  mimetype :: string
  size_bytes :: nat

text \<open>
  \<open>Math.random()\<close> is a source of numbers consumed in order: \<open>rnd k\<close> is the value of
  the \<open>k\<close>-th call. The platform promises \<open>0 \<le> rnd k < 1\<close>; the model is total on every
  source and the promise is the predicate \<open>unit_draws\<close>, assumed only where it is needed.
  Numbers are modelled as reals.
\<close>

type_synonym random_source = "nat \<Rightarrow> real"

definition unit_draws :: "random_source \<Rightarrow> bool" where
  "unit_draws rnd = (\<forall>k. 0 \<le> rnd k \<and> rnd k < 1)"

text \<open>The source whose every draw is \<open>r\<close>, for the examples.\<close>

definition constant_draws :: "real \<Rightarrow> random_source" where
  "constant_draws r k = r"

text \<open>
  What a request reads from the platform: the clock (\<open>Date.now()\<close>,
  \<open>new Date().toISOString()\<close>, SQLite's \<open>CURRENT_TIMESTAMP\<close> and
  \<open>date('now', 'start of month')\<close>) and \<open>process.env.NODE_ENV\<close>. One request reads one
  instant.
\<close>

record platform =
  now_ms :: nat
  now_iso :: string
  current_timestamp :: string
  start_of_month :: string
  node_env :: "string option"

section \<open>The risk assessment generator (scanController.getRiskAssessment)\<close>

text \<open>
  The local variables of \<open>getRiskAssessment\<close> that the function mutates, and the number of
  \<open>Math.random()\<close> calls made so far. An element of \<open>riskFactors\<close> is \<open>Some s\<close> for the
  string \<open>s\<close>, or \<open>None\<close> for JavaScript's \<open>undefined\<close>, which reading
  \<open>additionalFactors\<close> outside its bounds yields.
\<close>

record assess_vars =
  riskFactors :: "string option list"
  riskLevel :: string
  confidence_var :: real
  drawn :: nat

definition push :: "string \<Rightarrow> assess_vars \<Rightarrow> assess_vars" where
  "push f v = v\<lparr>riskFactors := riskFactors v @ [Some f]\<rparr>"

definition Math_random :: "random_source \<Rightarrow> assess_vars \<Rightarrow> real \<times> assess_vars" where
  "Math_random rnd v = (rnd (drawn v), v\<lparr>drawn := Suc (drawn v)\<rparr>)"

text \<open>The \<open>if (scanType === "CT") ... else if "MRI" ... else if "X-Ray"\<close> chain.\<close>

definition cranial_rules :: "random_source \<Rightarrow> assess_vars \<Rightarrow> assess_vars" where
  "cranial_rules rnd v0 =
     (let v1 = push ''Cranial region detected'' v0;
          (r1, v2) = Math_random rnd v1
      in if r1 > 0.6 then
           push ''Tumor within 2mm of major blood vessel''
             (push ''Critical vessel proximity detected'' (v2\<lparr>riskLevel := ''high''\<rparr>))
         else
           (let (r2, v3) = Math_random rnd v2
            in if r2 > 0.4 then push ''Moderate vessel proximity'' (v3\<lparr>riskLevel := ''medium''\<rparr>)
               else v3))"

definition scan_type_rules ::
  "random_source \<Rightarrow> string \<Rightarrow> nat \<Rightarrow> string \<Rightarrow> assess_vars \<Rightarrow> assess_vars" where
  "scan_type_rules rnd scanType fileSize fileName v0 =
     (if scanType = ''CT'' then
        (let v1 = (if fileSize > 10 * 1024 * 1024
                   then (push ''High resolution CT detected'' v0)
                          \<lparr>confidence_var := confidence_var v0 + 0.05\<rparr>
                   else v0)
         in if str_includes fileName ''brain'' \<or> str_includes fileName ''head'' \<or>
               str_includes fileName ''cranial''
            then cranial_rules rnd v1 else v1)
      else if scanType = ''MRI'' then
        (let v1 = push ''Soft tissue analysis completed'' v0;
             (r, v2) = Math_random rnd v1;
             v3 = (if r > 0.7
                   then push ''Tissue density variations detected'' (v2\<lparr>riskLevel := ''medium''\<rparr>)
                   else v2)
         in v3\<lparr>confidence_var := confidence_var v3 + 0.1\<rparr>)
      else if scanType = ''X-Ray'' then
        (push ''Bone structure analysis completed'' v0)\<lparr>riskLevel := ''low''\<rparr>
      else v0)"

definition small_file_rule :: "nat \<Rightarrow> assess_vars \<Rightarrow> assess_vars" where
  "small_file_rule fileSize v =
     (if fileSize < 1024 * 1024
      then push ''Lower resolution may affect accuracy''
             (v\<lparr>confidence_var := confidence_var v - 0.15\<rparr>)
      else v)"

definition additionalFactors :: "string list" where
  "additionalFactors =
     [''Anatomical variants detected'',
      ''Surgical approach complexity: moderate'',
      ''Patient age factor considered'',
      ''Previous surgical history noted'',
      ''Instrument accessibility evaluated'']"

text \<open>Reading a JavaScript array at an integer index: \<open>undefined\<close> outside the bounds.\<close>

definition array_at :: "'a list \<Rightarrow> int \<Rightarrow> 'a option" where
  "array_at xs k = (if 0 \<le> k \<and> k < int (length xs) then Some (xs ! nat k) else None)"

text \<open>
  The loop \<open>for (let i = 0; i < numFactors; i++)\<close>, as recursion on the number of
  iterations left; each iteration draws one number and pushes the factor it selects
  unless \<open>riskFactors\<close> has it already.
\<close>

fun random_factors :: "random_source \<Rightarrow> nat \<Rightarrow> assess_vars \<Rightarrow> assess_vars" where
  "random_factors rnd 0 v = v"
| "random_factors rnd (Suc n) v =
     (let (r, v1) = Math_random rnd v;
          factor = array_at additionalFactors \<lfloor>r * real (length additionalFactors)\<rfloor>;
          v2 = (if \<not> array_includes (riskFactors v1) factor
                then v1\<lparr>riskFactors := riskFactors v1 @ [factor]\<rparr> else v1)
      in random_factors rnd n v2)"

definition add_random_factors :: "random_source \<Rightarrow> assess_vars \<Rightarrow> assess_vars" where
  "add_random_factors rnd v =
     (let (r, v1) = Math_random rnd v;
          numFactors = \<lfloor>r * 2\<rfloor> + 1
      in random_factors rnd (nat numFactors) v1)"

text \<open>The \<open>switch (riskLevel)\<close>; it has no default case, so another level keeps the
  initial empty text and empty list.\<close>

definition details_of :: "string \<Rightarrow> string" where
  "details_of lvl =
     (if lvl = ''high'' then
        ''Critical risk factors identified requiring immediate attention. '' @
        ''Major blood vessels detected within surgical corridor. '' @
        ''Recommend specialized surgical team and advanced monitoring.''
      else if lvl = ''medium'' then
        ''Moderate risk factors present requiring careful planning. '' @
        ''Standard surgical precautions recommended with enhanced monitoring.''
      else if lvl = ''low'' then
        ''No significant risk factors detected. '' @
        ''Proceed with standard surgical protocols and routine monitoring.''
      else [])"

definition recommendations_of :: "string \<Rightarrow> string list" where
  "recommendations_of lvl =
     (if lvl = ''high'' then
        [''Schedule pre-operative consultation'',
         ''Consider minimally invasive approach'',
         ''Prepare for potential complications'',
         ''Ensure emergency protocols are ready'']
      else if lvl = ''medium'' then
        [''Review surgical approach options'',
         ''Prepare backup procedures'',
         ''Standard monitoring protocols'']
      else if lvl = ''low'' then
        [''Follow standard surgical procedures'',
         ''Routine post-operative care'',
         ''Regular follow-up scheduling'']
      else [])"

record ai_info =
  processingTime :: int
  ai_confidence :: real
  modelVersion :: string
  analysisDate :: string

record scan_info =
  info_type :: string
  fileSize :: nat
  fileName :: string

record risk_assessment =
  level :: string
  details :: string
  factors :: "string option list"
  recommendations :: "string list"
  confidence :: real
  aiInfo :: ai_info
  scanInfo :: scan_info

definition getRiskAssessment ::
  "random_source \<Rightarrow> platform \<Rightarrow> string \<Rightarrow> uploaded_file option \<Rightarrow> risk_assessment" where
  "getRiskAssessment rnd clk scanType file =
     (let v0 = \<lparr>riskFactors = [], riskLevel = ''low'', confidence_var = 0.85, drawn = 0\<rparr>;
          fileSize = (case file of Some f \<Rightarrow> size_bytes f | None \<Rightarrow> 0);
          fileName = (case file of Some f \<Rightarrow> toLowerCase (originalname f) | None \<Rightarrow> []);
          v1 = scan_type_rules rnd scanType fileSize fileName v0;
          v2 = small_file_rule fileSize v1;
          v3 = add_random_factors rnd v2;
          (r, v4) = Math_random rnd v3;
          info = \<lparr>processingTime = \<lfloor>r * 3000\<rfloor> + 500, ai_confidence = 50,
                  modelVersion = ''SurgicalAI v2.1.0'', analysisDate = now_iso clk\<rparr>
      in \<lparr>level = riskLevel v4,
          details = details_of (riskLevel v4),
          factors = riskFactors v4,
          recommendations = recommendations_of (riskLevel v4),
          confidence = ai_confidence info,
          aiInfo = info,
          scanInfo = \<lparr>info_type = scanType, fileSize = fileSize, fileName = fileName\<rparr>\<rparr>)"

section \<open>The 2D slice viewer (MedicalSliceViewer)\<close>

text \<open>
  The component state: the canvas behind \<open>canvasRef\<close> (\<open>None\<close> when the ref is null or
  the canvas gives no 2D context), the \<open>useState\<close> cells, and the annotations made by
  clicking. \<open>totalSlices\<close> is a state cell without a setter, so a constant. JavaScript
  numbers are modelled as integers (slice indices) and reals (zoom, coordinates).
\<close>

datatype annotation_kind = Info | Warning | Critical

record annotation =
  ann_slice :: int
  ann_x :: real
  ann_y :: real
  ann_note :: string
  ann_type :: annotation_kind

record overlay_toggles =
  ventricles :: bool
  vessels :: bool
  contours :: bool

record canvas =
  width :: real
  height :: real

record viewer_state =
  canvasRef :: "canvas option"
  currentSlice :: int
  zoom :: real
  annotations :: "annotation list"
  showAnnotations :: bool
  annotationMode :: bool
  overlays :: overlay_toggles

definition totalSlices :: int where
  "totalSlices = 12"

definition initial_viewer :: "canvas option \<Rightarrow> viewer_state" where
  "initial_viewer c =
     \<lparr>canvasRef = c, currentSlice = 0, zoom = 1, annotations = [], showAnnotations = True,
      annotationMode = False,
      overlays = \<lparr>ventricles = True, vessels = True, contours = True\<rparr>\<rparr>"

subsection \<open>Navigation and zoom\<close>

definition nextSlice :: "viewer_state \<Rightarrow> viewer_state" where
  "nextSlice s = s\<lparr>currentSlice := min (currentSlice s + 1) (totalSlices - 1)\<rparr>"

definition prevSlice :: "viewer_state \<Rightarrow> viewer_state" where
  "prevSlice s = s\<lparr>currentSlice := max (currentSlice s - 1) 0\<rparr>"

definition zoomIn :: "viewer_state \<Rightarrow> viewer_state" where
  "zoomIn s = s\<lparr>zoom := min (zoom s * 1.2) 3\<rparr>"

definition zoomOut :: "viewer_state \<Rightarrow> viewer_state" where
  "zoomOut s = s\<lparr>zoom := max (zoom s / 1.2) 0.5\<rparr>"

definition resetView :: "viewer_state \<Rightarrow> viewer_state" where
  "resetView s = s\<lparr>zoom := 1, currentSlice := \<lfloor>real_of_int totalSlices / 2\<rfloor>\<rparr>"

datatype viewer_op = NextSlice | PrevSlice | ZoomIn | ZoomOut | ResetView

fun apply_viewer_op :: "viewer_op \<Rightarrow> viewer_state \<Rightarrow> viewer_state" where
  "apply_viewer_op NextSlice s = nextSlice s"
| "apply_viewer_op PrevSlice s = prevSlice s"
| "apply_viewer_op ZoomIn s = zoomIn s"
| "apply_viewer_op ZoomOut s = zoomOut s"
| "apply_viewer_op ResetView s = resetView s"

text \<open>The buttons pressed one after another, first operation first.\<close>

fun run_viewer_ops :: "viewer_op list \<Rightarrow> viewer_state \<Rightarrow> viewer_state" where
  "run_viewer_ops [] s = s"
| "run_viewer_ops (p # ps) s = run_viewer_ops ps (apply_viewer_op p s)"

definition viewer_inv :: "viewer_state \<Rightarrow> bool" where
  "viewer_inv s =
     (0 \<le> currentSlice s \<and> currentSlice s \<le> totalSlices - 1 \<and> 0.5 \<le> zoom s \<and> zoom s \<le> 3)"

subsection \<open>Drawing\<close>

text \<open>
  A redraw is the sequence of calls it makes on the 2D context: property assignments
  and drawing methods, in program order.
\<close>

datatype draw_op =
    FillStyle string
  | StrokeStyle string
  | LineWidth real
  | SetLineDash "real list"
  | FillRect real real real real
  | BeginPath
  | Ellipse real real real real real real real
  | Arc real real real real real
  | MoveTo real real
  | LineTo real real
  | Fill
  | Stroke

definition drawBrainSlice :: "canvas \<Rightarrow> real \<Rightarrow> int \<Rightarrow> draw_op list" where
  "drawBrainSlice cv zm slice =
     (let centerX = width cv / 2;
          centerY = height cv / 2;
          baseRadius = 120 * zm;
          radiusVariation = sin ((real_of_int slice / real_of_int totalSlices) * pi) * 0.3 + 0.7;
          radius = baseRadius * radiusVariation
      in [FillStyle ''#4a4a4a'', BeginPath,
          Ellipse centerX centerY radius (radius * 0.9) 0 0 (2 * pi), Fill,
          FillStyle ''#6a6a6a'', BeginPath,
          Ellipse centerX centerY (radius * 0.85) (radius * 0.75) 0 0 (2 * pi), Fill,
          FillStyle ''#8a8a8a'', BeginPath,
          Ellipse centerX centerY (radius * 0.7) (radius * 0.6) 0 0 (2 * pi), Fill])"

definition drawVentricles :: "canvas \<Rightarrow> real \<Rightarrow> int \<Rightarrow> draw_op list" where
  "drawVentricles cv zm slice =
     (let centerX = width cv / 2;
          centerY = height cv / 2;
          baseSize = 30 * zm;
          ventricleSize = baseSize * (1 - \<bar>real_of_int slice - 6\<bar> / 6)
      in [StrokeStyle ''#3b82f6'', LineWidth 2, FillStyle ''rgba(59, 130, 246, 0.3)''] @
         (if slice \<ge> 3 \<and> slice \<le> 9 then
            [BeginPath,
             Ellipse (centerX - 25 * zm) (centerY - 10 * zm) (ventricleSize * 0.6)
               (ventricleSize * 0.4) 0 0 (2 * pi), Fill, Stroke,
             BeginPath,
             Ellipse (centerX + 25 * zm) (centerY - 10 * zm) (ventricleSize * 0.6)
               (ventricleSize * 0.4) 0 0 (2 * pi), Fill, Stroke]
          else []) @
         (if slice \<ge> 4 \<and> slice \<le> 8 then
            [BeginPath,
             Ellipse centerX centerY (baseSize * 0.3) (baseSize * 0.8) 0 0 (2 * pi), Fill, Stroke]
          else []))"

definition drawVessels :: "canvas \<Rightarrow> real \<Rightarrow> int \<Rightarrow> draw_op list" where
  "drawVessels cv zm slice =
     (let centerX = width cv / 2;
          centerY = height cv / 2
      in [StrokeStyle ''#ef4444'', LineWidth 2] @
         concat (map (\<lambda>i.
           (let angle = (real i / 6) * pi * 2;
                radius = 80 * zm;
                x = centerX + cos angle * radius;
                y = centerY + sin angle * radius
            in [BeginPath, MoveTo centerX centerY, LineTo x y, Stroke])) [0..<6]))"

definition drawContours :: "canvas \<Rightarrow> real \<Rightarrow> int \<Rightarrow> draw_op list" where
  "drawContours cv zm slice =
     (let centerX = width cv / 2;
          centerY = height cv / 2
      in [StrokeStyle ''#10b981'', LineWidth 1, SetLineDash [5, 5], BeginPath,
          Ellipse centerX centerY (140 * zm) (130 * zm) 0 0 (2 * pi), Stroke,
          SetLineDash []])"

text \<open>One annotation marker: a filled dot and a ring in the colour of its kind; the
  ring's \<open>strokeStyle\<close> is read back from \<open>fillStyle\<close>.\<close>

definition drawMarker :: "canvas \<Rightarrow> annotation \<Rightarrow> draw_op list" where
  "drawMarker cv a =
     (let x = ann_x a * width cv;
          y = ann_y a * height cv;
          colour = (if ann_type a = Critical then ''#ef4444''
                    else if ann_type a = Warning then ''#f59e0b'' else ''#3b82f6'')
      in [FillStyle colour, BeginPath, Arc x y 6 0 (2 * pi), Fill,
          StrokeStyle colour, LineWidth 2, BeginPath, Arc x y 12 0 (2 * pi), Stroke])"

definition drawAnnotations :: "canvas \<Rightarrow> int \<Rightarrow> annotation list \<Rightarrow> draw_op list" where
  "drawAnnotations cv cur anns =
     concat (map (drawMarker cv) (filter (\<lambda>ann. ann_slice ann = cur) anns))"

definition drawSlice :: "viewer_state \<Rightarrow> draw_op list" where
  "drawSlice s =
     (case canvasRef s of
        None \<Rightarrow> []
      | Some cv \<Rightarrow>
          [FillStyle ''#1a1a1a'', FillRect 0 0 (width cv) (height cv)] @
          drawBrainSlice cv (zoom s) (currentSlice s) @
          (if ventricles (overlays s) then drawVentricles cv (zoom s) (currentSlice s) else []) @
          (if vessels (overlays s) then drawVessels cv (zoom s) (currentSlice s) else []) @
          (if contours (overlays s) then drawContours cv (zoom s) (currentSlice s) else []) @
          (if showAnnotations s then drawAnnotations cv (currentSlice s) (annotations s)
           else []))"

section \<open>Client-side authentication (AuthContext)\<close>

text \<open>
  The provider's state is the \<open>user\<close> cell and the \<open>loading\<close> flag. \<open>login\<close> sets
  \<open>loading\<close>, waits a second, stores the demo user and clears \<open>loading\<close>; the model
  gives the state once the promise has resolved.
\<close>

datatype role = Surgeon | Nurse | Admin

record user =
  user_id :: string
  name :: string
  user_role :: role
  email :: string

record auth_state =
  auth_user :: "user option"
  loading :: bool

definition autoLogin :: "auth_state \<Rightarrow> auth_state" where
  "autoLogin st =
     (let demoUser = \<lparr>user_id = ''1'', name = ''Dr. Smith'', user_role = Surgeon,
                       email = ''dr.smith@hospital.com''\<rparr>
      in (st\<lparr>loading := True\<rparr>)\<lparr>auth_user := Some demoUser, loading := False\<rparr>)"

definition login :: "string \<Rightarrow> string \<Rightarrow> auth_state \<Rightarrow> auth_state" where
  "login email_arg password st =
     (let demoUser = \<lparr>user_id = ''1'', name = ''Dr. Smith'', user_role = Surgeon,
                       email = email_arg\<rparr>
      in (st\<lparr>loading := True\<rparr>)\<lparr>auth_user := Some demoUser, loading := False\<rparr>)"

definition logout :: "auth_state \<Rightarrow> auth_state" where
  "logout st = st\<lparr>auth_user := None\<rparr>"

section \<open>The database (config/db.js)\<close>

text \<open>
  A row of the \<open>scans\<close> table. The three records nest as the three column lists the
  routes use do: the scan object of the upload response, the columns of the listing, and
  the columns of the single-scan query, which adds \<open>file_path\<close>.
\<close>

record scan_summary =
  scan_id :: int
  patient_name :: string
  scan_type :: string
  risk_level :: string
  status :: string
  date :: string

record scan_listing = scan_summary +
  uploaded_by :: string
  scan_notes :: "string option"

record scan_row = scan_listing +
  file_path :: "string option"

record annotation_row =
  annotation_id :: int
  annotated_scan_id :: int
  position_x :: real
  position_y :: real
  position_z :: real
  annotation_note :: string
  annotation_type :: string
  created_by :: string
  created_at :: string
  updated_at :: string

text \<open>
  The database state the routes can observe: the rows of \<open>scans\<close> in insertion order,
  the AUTOINCREMENT counter of that table (the largest id ever given out), and the rows
  of \<open>scan_annotations\<close>. The statements the routes run are well-formed for the schema;
  each is modelled by its result on this state, so a statement does not fail.
\<close>

record database =
  scans :: "scan_row list"
  scans_seq :: int
  scan_annotations :: "annotation_row list"

text \<open>
  The route parameter \<open>:id\<close> is a string, bound to \<open>WHERE id = ?\<close> against an INTEGER
  column. SQLite compares after converting the text to a number where it is a
  well-formed literal; \<open>as_integer\<close> stands for that conversion (\<open>None\<close>: the text
  equals no integer), and the model holds for every such conversion.
\<close>

type_synonym id_conversion = "string \<Rightarrow> int option"

definition id_matches :: "id_conversion \<Rightarrow> string \<Rightarrow> scan_row \<Rightarrow> bool" where
  "id_matches as_integer p r = (as_integer p = Some (scan_id r))"

text \<open>\<open>SELECT id, ..., notes FROM scans ORDER BY date DESC\<close>\<close>

definition select_scans :: "database \<Rightarrow> scan_listing list" where
  "select_scans db = map scan_listing.truncate (rev (sort_key date (scans db)))"

text \<open>\<open>SELECT id, ..., notes, file_path FROM scans WHERE id = ?\<close>, first row or none.\<close>

definition select_scan :: "id_conversion \<Rightarrow> database \<Rightarrow> string \<Rightarrow> scan_row option" where
  "select_scan as_integer db p = find (id_matches as_integer p) (scans db)"

text \<open>
  \<open>INSERT INTO scans (patient_name, scan_type, risk_level, status, file_path, notes)\<close>:
  the id is one more than the largest id in the table and in the counter; \<open>date\<close> and
  \<open>uploaded_by\<close> take their defaults. The result is \<open>lastID\<close> and the new state.
\<close>

definition insert_scan ::
  "platform \<Rightarrow> database \<Rightarrow> string \<Rightarrow> string \<Rightarrow> string \<Rightarrow> string \<Rightarrow> string \<Rightarrow> string
     \<Rightarrow> int \<times> database" where
  "insert_scan pf db pname stype rlevel st fpath nts =
     (let new_id = foldr max (map scan_id (scans db)) (scans_seq db) + 1;
          row = \<lparr>scan_id = new_id, patient_name = pname, scan_type = stype, risk_level = rlevel,
                 status = st, date = current_timestamp pf, uploaded_by = ''Dr. Smith'',
                 scan_notes = Some nts, file_path = Some fpath\<rparr>
      in (new_id, db\<lparr>scans := scans db @ [row], scans_seq := new_id\<rparr>))"

text \<open>\<open>UPDATE scans SET status = ? WHERE id = ?\<close>: the number of rows changed and the
  new state.\<close>

definition update_scan_status ::
  "id_conversion \<Rightarrow> database \<Rightarrow> string \<Rightarrow> string \<Rightarrow> nat \<times> database" where
  "update_scan_status as_integer db st p =
     (length (filter (id_matches as_integer p) (scans db)),
      db\<lparr>scans := map (\<lambda>r. if id_matches as_integer p r then r\<lparr>status := st\<rparr> else r)
                      (scans db)\<rparr>)"

text \<open>The four \<open>SELECT COUNT\<close> statements of the statistics route.\<close>

definition count_scans :: "database \<Rightarrow> nat" where
  "count_scans db = length (scans db)"

definition count_high_risk :: "database \<Rightarrow> nat" where
  "count_high_risk db = length (filter (\<lambda>r. risk_level r = ''high'') (scans db))"

definition count_recent :: "platform \<Rightarrow> database \<Rightarrow> nat" where
  "count_recent pf db = length (filter (\<lambda>r. date r \<ge> start_of_month pf) (scans db))"

definition count_patients :: "database \<Rightarrow> nat" where
  "count_patients db = length (remdups (map patient_name (scans db)))"

section \<open>The HTTP server (server/index.js, routes/index.js)\<close>

subsection \<open>Requests and responses\<close>

text \<open>
  A value of a parsed JSON body, with \<open>JUndefined\<close> for a property that is absent. A
  body is the function from property names to values.
\<close>

datatype json =
    JUndefined
  | JNull
  | JBool bool
  | JNumber real
  | JString string
  | JArray "json list"
  | JObject "(string \<times> json) list"

type_synonym js_body = "string \<Rightarrow> json"

text \<open>The body parsed from an object literal with the given properties.\<close>

definition js_object :: "(string \<times> json) list \<Rightarrow> js_body" where
  "js_object props k = (case map_of props k of None \<Rightarrow> JUndefined | Some v \<Rightarrow> v)"

text \<open>
  A multipart upload request: the two text fields the route reads (\<open>None\<close> when the
  field is absent) and the file part, if any.
\<close>

record upload_request =
  patientName :: "string option"
  scanType :: "string option"
  file_part :: "uploaded_file option"

record upload_result =
  upload_message :: string
  scanId :: int
  riskAssessment :: risk_assessment
  scan :: scan_summary

record stats =
  totalScans :: nat
  highRiskCases :: nat
  recentScans :: nat
  activePatients :: nat

record annotation_ack =
  ack_message :: string
  ack_id :: string
  ack_scanId :: json
  ack_position :: json
  ack_note :: json
  ack_type :: json

datatype payload =
    Error string
  | ErrorInfo string string
  | ScanList "scan_listing list"
  | ScanRecord scan_row
  | Uploaded upload_result
  | Statistics stats
  | Message string
  | AnnotationSaved annotation_ack
  | AnnotationList "json list"

record response =
  http_status :: nat
  body :: payload

definition send :: "nat \<Rightarrow> payload \<Rightarrow> response" where
  "send code b = \<lparr>http_status = code, body = b\<rparr>"

text \<open>A number in a template literal: its decimal digits.\<close>

fun decimal :: "nat \<Rightarrow> string" where
  "decimal n =
     (if n < 10 then [''0123456789'' ! n]
      else decimal (n div 10) @ [''0123456789'' ! (n mod 10)])"

declare decimal.simps [simp del]

text \<open>JavaScript's \<open>!s\<close> on a string that may be absent: true for \<open>undefined\<close> and "".\<close>

definition falsy :: "string option \<Rightarrow> bool" where
  "falsy s = (case s of None \<Rightarrow> True | Some t \<Rightarrow> t = [])"

subsection \<open>The upload middleware and the error handler (server/index.js)\<close>

datatype multer_code = LIMIT_FILE_SIZE | LIMIT_UNEXPECTED_FILE

datatype middleware_error = MulterError multer_code | PlainError string

definition multer_message :: "multer_code \<Rightarrow> string" where
  "multer_message c =
     (case c of LIMIT_FILE_SIZE \<Rightarrow> ''File too large''
      | LIMIT_UNEXPECTED_FILE \<Rightarrow> ''Unexpected field'')"

definition error_message :: "middleware_error \<Rightarrow> string" where
  "error_message e = (case e of MulterError c \<Rightarrow> multer_message c | PlainError m \<Rightarrow> m)"

definition fileSize_limit :: nat where
  "fileSize_limit = 50 * 1024 * 1024"

definition allowedTypes :: "string list" where
  "allowedTypes = [''image/jpeg'', ''image/png'', ''image/gif'']"

text \<open>The \<open>fileFilter\<close> callback: \<open>Inr True\<close> accepts the file, \<open>Inl\<close> is the error passed
  to \<open>cb\<close>.\<close>

definition fileFilter :: "uploaded_file \<Rightarrow> middleware_error + bool" where
  "fileFilter f =
     (let isDicom = endsWith (toLowerCase (originalname f)) ''.dcm''
      in if array_includes allowedTypes (mimetype f) \<or> isDicom then Inr True
         else Inl (PlainError
                ''Invalid file type. Please upload JPEG, PNG, GIF, or DICOM files.''))"

text \<open>
  \<open>upload.single(field)\<close> as multer runs it on a request with at most one file part: a
  file in another field is refused as unexpected, then the filter is asked, then the
  size limit applies; \<open>Inr\<close> is the value of \<open>req.file\<close> handed to the route.
\<close>

definition upload_single ::
  "string \<Rightarrow> uploaded_file option \<Rightarrow> middleware_error + uploaded_file option" where
  "upload_single field part =
     (case part of
        None \<Rightarrow> Inr None
      | Some f \<Rightarrow>
          if fieldname f \<noteq> field then Inl (MulterError LIMIT_UNEXPECTED_FILE)
          else (case fileFilter f of
                  Inl e \<Rightarrow> Inl e
                | Inr keep \<Rightarrow>
                    if \<not> keep then Inr None
                    else if size_bytes f > fileSize_limit then Inl (MulterError LIMIT_FILE_SIZE)
                    else Inr (Some f)))"

text \<open>The error-handling middleware at the end of the application.\<close>

definition errorHandler :: "platform \<Rightarrow> middleware_error \<Rightarrow> response" where
  "errorHandler pf err =
     (case err of
        MulterError c \<Rightarrow>
          if c = LIMIT_FILE_SIZE then send 400 (Error ''File too large. Maximum size is 50MB.'')
          else send 400 (Error (''File upload error: '' @ error_message err))
      | PlainError m \<Rightarrow>
          send 500 (ErrorInfo ''Internal server error''
            (if node_env pf = Some ''development'' then error_message err
             else ''Something went wrong'')))"

subsection \<open>The routes (routes/index.js)\<close>

text \<open>\<open>GET /api/scans\<close>\<close>

definition get_scans :: "database \<Rightarrow> response" where
  "get_scans db = send 200 (ScanList (select_scans db))"

text \<open>\<open>GET /api/scans/:id\<close>\<close>

definition get_scan :: "id_conversion \<Rightarrow> database \<Rightarrow> string \<Rightarrow> response" where
  "get_scan as_integer db p =
     (case select_scan as_integer db p of
        None \<Rightarrow> send 404 (Error ''Scan not found'')
      | Some r \<Rightarrow> send 200 (ScanRecord r))"

text \<open>\<open>POST /api/scans\<close>, behind \<open>upload.single('scan')\<close>; the result is the response
  and the database afterwards. Past the check of the required fields both are present,
  so \<open>the\<close> reads them.\<close>

definition post_scans_handler ::
  "random_source \<Rightarrow> platform \<Rightarrow> database \<Rightarrow> upload_request \<Rightarrow> uploaded_file option
     \<Rightarrow> response \<times> database" where
  "post_scans_handler rnd pf db req req_file =
     (if falsy (patientName req) \<or> falsy (scanType req) then
        (send 400 (Error ''Patient name and scan type are required''), db)
      else (case req_file of
        None \<Rightarrow> (send 400 (Error ''Scan file is required''), db)
      | Some f \<Rightarrow>
          (let pname = the (patientName req);
               stype = the (scanType req);
               assessment = getRiskAssessment rnd pf stype (Some f);
               filePath = ''uploads/'' @ decimal (now_ms pf) @ ''_'' @ originalname f;
               (result_id, db') = insert_scan pf db pname stype (level assessment)
                                    ''completed'' filePath (details assessment)
           in (send 201 (Uploaded
                 \<lparr>upload_message = ''Scan uploaded successfully'',
                  scanId = result_id,
                  riskAssessment = assessment,
                  scan = \<lparr>scan_id = result_id, patient_name = pname, scan_type = stype,
                          risk_level = level assessment, status = ''completed'',
                          date = now_iso pf\<rparr>\<rparr>),
               db'))))"

definition post_scans ::
  "random_source \<Rightarrow> platform \<Rightarrow> database \<Rightarrow> upload_request \<Rightarrow> response \<times> database" where
  "post_scans rnd pf db req =
     (case upload_single ''scan'' (file_part req) of
        Inl err \<Rightarrow> (errorHandler pf err, db)
      | Inr req_file \<Rightarrow> post_scans_handler rnd pf db req req_file)"

text \<open>\<open>GET /api/stats\<close>\<close>

definition get_stats :: "platform \<Rightarrow> database \<Rightarrow> response" where
  "get_stats pf db =
     send 200 (Statistics
       \<lparr>totalScans = count_scans db, highRiskCases = count_high_risk db,
        recentScans = count_recent pf db, activePatients = count_patients db\<rparr>)"

text \<open>\<open>POST /api/scans/:id/status\<close>. \<open>includes(status)\<close> holds when one of the three
  literals equals the submitted value; that literal is the text bound to the statement.\<close>

definition post_scan_status ::
  "id_conversion \<Rightarrow> database \<Rightarrow> string \<Rightarrow> js_body \<Rightarrow> response \<times> database" where
  "post_scan_status as_integer db p req_body =
     (let st = req_body ''status''
      in (case find (\<lambda>v. JString v = st) [''pending'', ''completed'', ''failed''] of
            None \<Rightarrow> (send 400 (Error ''Invalid status''), db)
          | Some text \<Rightarrow>
              (send 200 (Message ''Status updated successfully''),
               snd (update_scan_status as_integer db text p))))"

text \<open>\<open>POST /api/annotations\<close> and \<open>GET /api/annotations/:scanId\<close>\<close>

definition post_annotations :: "platform \<Rightarrow> database \<Rightarrow> js_body \<Rightarrow> response \<times> database" where
  "post_annotations pf db req_body =
     (send 201 (AnnotationSaved
        \<lparr>ack_message = ''Annotation saved successfully'',
         ack_id = ''ann-'' @ decimal (now_ms pf),
         ack_scanId = req_body ''scanId'',
         ack_position = req_body ''position'',
         ack_note = req_body ''note'',
         ack_type = req_body ''type''\<rparr>),
      db)"

definition get_annotations :: "database \<Rightarrow> string \<Rightarrow> response" where
  "get_annotations db sid = send 200 (AnnotationList [])"

text \<open>Annotations posted one after another; the responses in order and the database
  afterwards.\<close>

fun post_annotations_all ::
  "platform \<Rightarrow> database \<Rightarrow> js_body list \<Rightarrow> response list \<times> database" where
  "post_annotations_all pf db [] = ([], db)"
| "post_annotations_all pf db (b # bs) =
     (let (r, db1) = post_annotations pf db b;
          (rs, db2) = post_annotations_all pf db1 bs
      in (r # rs, db2))"

section \<open>Sample data (insertSampleData) and example inputs\<close>

text \<open>
  The six scans and four annotations that \<open>insertSampleData\<close> puts into an empty
  database, with ids in insertion order; \<open>created\<close> is the time of the insertion, the
  default of the annotation timestamps.
\<close>

definition sample_scan ::
  "int \<Rightarrow> string \<Rightarrow> string \<Rightarrow> string \<Rightarrow> string \<Rightarrow> string \<Rightarrow> string \<Rightarrow> scan_row" where
  "sample_scan i pname stype rlevel st d nts =
     \<lparr>scan_id = i, patient_name = pname, scan_type = stype, risk_level = rlevel, status = st,
      date = d, uploaded_by = ''Dr. Smith'', scan_notes = Some nts, file_path = None\<rparr>"

definition sample_scans :: "scan_row list" where
  "sample_scans =
     [sample_scan 1 ''John Doe'' ''CT'' ''high'' ''completed'' ''2024-01-15 10:30:00''
        ''Cranial CT showing concerning mass near temporal lobe'',
      sample_scan 2 ''Jane Smith'' ''MRI'' ''low'' ''completed'' ''2024-01-14 14:20:00''
        ''Routine MRI scan, no abnormalities detected'',
      sample_scan 3 ''Robert Johnson'' ''CT'' ''medium'' ''pending'' ''2024-01-13 09:15:00''
        ''Chest CT with possible nodule requiring follow-up'',
      sample_scan 4 ''Maria Garcia'' ''X-Ray'' ''low'' ''completed'' ''2024-01-12 16:45:00''
        ''Standard X-ray, normal findings'',
      sample_scan 5 ''John Doe'' ''MRI'' ''high'' ''pending'' ''2024-01-11 11:00:00''
        ''Follow-up MRI for surgical planning'',
      sample_scan 6 ''Jane Smith'' ''CT'' ''medium'' ''completed'' ''2024-01-10 13:30:00''
        ''Abdominal CT with minor findings'']"

definition sample_annotation ::
  "string \<Rightarrow> int \<Rightarrow> int \<Rightarrow> real \<Rightarrow> real \<Rightarrow> real \<Rightarrow> string \<Rightarrow> string \<Rightarrow> string \<Rightarrow> annotation_row"
  where
  "sample_annotation created i sid px py pz txt kind author =
     \<lparr>annotation_id = i, annotated_scan_id = sid, position_x = px, position_y = py,
      position_z = pz, annotation_note = txt, annotation_type = kind, created_by = author,
      created_at = created, updated_at = created\<rparr>"

definition sample_annotations :: "string \<Rightarrow> annotation_row list" where
  "sample_annotations created =
     [sample_annotation created 1 1 0.8 0.2 0.5
        ''Critical vessel proximity - exercise extreme caution'' ''critical'' ''Dr. Smith'',
      sample_annotation created 2 1 (- 0.5) 0.8 0.3
        ''Tumor boundary clearly defined'' ''info'' ''Dr. Smith'',
      sample_annotation created 3 2 0.2 (- 0.3) 0.7
        ''Normal tissue structure'' ''info'' ''Dr. Johnson'',
      sample_annotation created 4 3 1.1 0.5 (- 0.2)
        ''Potential surgical approach point'' ''warning'' ''Dr. Smith'']"

definition sample_database :: database where
  "sample_database =
     \<lparr>scans = sample_scans, scans_seq = 6,
      scan_annotations = sample_annotations ''2024-01-20 08:00:00''\<rparr>"

text \<open>An instant for the examples, and the id conversion on plain digit strings.\<close>

definition sample_platform :: platform where
  "sample_platform =
     \<lparr>now_ms = 1705737600000, now_iso = ''2024-01-20T08:00:00.000Z'',
      current_timestamp = ''2024-01-20 08:00:00'', start_of_month = ''2024-01-01'',
      node_env = None\<rparr>"

definition digit_of :: "char \<Rightarrow> int option" where
  "digit_of c = map_of (zip ''0123456789'' [0, 1, 2, 3, 4, 5, 6, 7, 8, 9]) c"

fun plain_digits :: "int \<Rightarrow> string \<Rightarrow> int option" where
  "plain_digits acc [] = Some acc"
| "plain_digits acc (c # cs) =
     (case digit_of c of None \<Rightarrow> None | Some d \<Rightarrow> plain_digits (10 * acc + d) cs)"

definition plain_integer :: id_conversion where
  "plain_integer s = (if s = [] then None else plain_digits 0 s)"

text \<open>An upload of a one-kilobyte file with the given name and MIME type for the
  patient "Test Patient", scan type CT.\<close>

definition sample_upload :: "string \<Rightarrow> string \<Rightarrow> upload_request" where
  "sample_upload fname mime =
     \<lparr>patientName = Some ''Test Patient'', scanType = Some ''CT'',
      file_part = Some \<lparr>fieldname = ''scan'', originalname = fname, mimetype = mime,
                        size_bytes = 1024\<rparr>\<rparr>"

section \<open>Properties of the string functions\<close>

text \<open>The three tests mean what the JavaScript methods mean: a prefix, a substring, a
  suffix.\<close>

lemma startsWith_iff: "startsWith s t \<longleftrightarrow> (\<exists>zs. s = t @ zs)"
  by (induction s t rule: startsWith.induct) auto

lemma str_includes_iff: "str_includes s t \<longleftrightarrow> (\<exists>ys zs. s = ys @ t @ zs)"
proof (induction s)
  case Nil
  then show ?case by auto
next
  case (Cons c cs)
  show ?case
  proof
    assume "str_includes (c # cs) t"
    then consider "startsWith (c # cs) t" | "str_includes cs t" by auto
    then show "\<exists>ys zs. c # cs = ys @ t @ zs"
    proof cases
      case 1
      then obtain zs where "c # cs = t @ zs" by (auto simp add: startsWith_iff)
      then have "c # cs = [] @ t @ zs" by simp
      then show ?thesis by blast
    next
      case 2
      then obtain ys zs where "cs = ys @ t @ zs" using Cons.IH by blast
      then have "c # cs = (c # ys) @ t @ zs" by simp
      then show ?thesis by blast
    qed
  next
    assume "\<exists>ys zs. c # cs = ys @ t @ zs"
    then obtain ys zs where eq: "c # cs = ys @ t @ zs" by blast
    show "str_includes (c # cs) t"
    proof (cases ys)
      case Nil
      with eq have "startsWith (c # cs) t" by (auto simp add: startsWith_iff)
      then show ?thesis by simp
    next
      case (Cons y ys')
      with eq have "cs = ys' @ t @ zs" by simp
      then have "str_includes cs t" using Cons.IH by blast
      then show ?thesis by simp
    qed
  qed
qed

lemma endsWith_iff: "endsWith s t \<longleftrightarrow> (\<exists>ys. s = ys @ t)"
proof -
  have "endsWith s t \<longleftrightarrow> (\<exists>zs. rev s = rev t @ zs)"
    by (simp add: endsWith_def startsWith_iff)
  also have "\<dots> \<longleftrightarrow> (\<exists>ys. s = ys @ t)"
  proof
    assume "\<exists>zs. rev s = rev t @ zs"
    then obtain zs where "rev s = rev t @ zs" by blast
    then have "rev (rev s) = rev (rev t @ zs)" by simp
    then have "s = rev zs @ t" by simp
    then show "\<exists>ys. s = ys @ t" by blast
  next
    assume "\<exists>ys. s = ys @ t"
    then obtain ys where "s = ys @ t" by blast
    then have "rev s = rev t @ rev ys" by simp
    then show "\<exists>zs. rev s = rev t @ zs" by blast
  qed
  finally show ?thesis .
qed

lemma decimal_example: "decimal 1705 = ''1705''"
  by (simp add: decimal.simps)

section \<open>Properties of the risk assessment generator\<close>

lemma riskLevel_push [simp]: "riskLevel (push f v) = riskLevel v"
  by (simp add: push_def)

lemma riskLevel_random_factors [simp]: "riskLevel (random_factors rnd n v) = riskLevel v"
  by (induction n arbitrary: v) (simp_all add: Math_random_def Let_def)

lemma riskLevel_add_random_factors [simp]: "riskLevel (add_random_factors rnd v) = riskLevel v"
  by (simp add: add_random_factors_def Math_random_def Let_def)

lemma riskLevel_small_file_rule [simp]: "riskLevel (small_file_rule n v) = riskLevel v"
  by (simp add: small_file_rule_def)

lemma level_getRiskAssessment:
  "level (getRiskAssessment rnd clk stype file) =
     riskLevel (scan_type_rules rnd stype
       (case file of Some f \<Rightarrow> size_bytes f | None \<Rightarrow> 0)
       (case file of Some f \<Rightarrow> toLowerCase (originalname f) | None \<Rightarrow> [])
       \<lparr>riskFactors = [], riskLevel = ''low'', confidence_var = 0.85, drawn = 0\<rparr>)"
  by (simp add: getRiskAssessment_def Math_random_def Let_def)

text \<open>
  With every draw in [0, 1), as the platform promises, each random index is within
  \<open>additionalFactors\<close>, and every factor of the assessment is a string.
\<close>

lemma array_at_unit:
  assumes "0 \<le> r" "r < 1"
  shows "\<exists>s. array_at additionalFactors \<lfloor>r * real (length additionalFactors)\<rfloor> = Some s"
proof -
  have len: "length additionalFactors = 5" by (simp add: additionalFactors_def)
  have "0 \<le> r * 5" using assms by simp
  then have lo: "0 \<le> \<lfloor>r * 5\<rfloor>" by simp
  have "r * 5 < 5" using assms by simp
  then have hi: "\<lfloor>r * 5\<rfloor> < 5" by (simp add: floor_less_iff)
  show ?thesis using lo hi by (simp add: array_at_def len)
qed

lemma random_factors_strings:
  assumes "unit_draws rnd" "None \<notin> set (riskFactors v)"
  shows "None \<notin> set (riskFactors (random_factors rnd n v))"
  using assms(2)
proof (induction n arbitrary: v)
  case 0
  then show ?case by simp
next
  case (Suc n)
  from assms(1) have "0 \<le> rnd (drawn v)" "rnd (drawn v) < 1" by (simp_all add: unit_draws_def)
  then obtain s where s: "array_at additionalFactors \<lfloor>rnd (drawn v) * real (length additionalFactors)\<rfloor> = Some s"
    using array_at_unit by blast
  show ?case
    using Suc.prems s by (auto simp add: Math_random_def Let_def intro!: Suc.IH)
qed

lemma push_strings: "None \<notin> set (riskFactors v) \<Longrightarrow> None \<notin> set (riskFactors (push f v))"
  by (simp add: push_def)

lemma factors_strings:
  assumes "unit_draws rnd"
  shows "None \<notin> set (factors (getRiskAssessment rnd pf stype f))"
proof -
  let ?v0 = "\<lparr>riskFactors = [], riskLevel = ''low'', confidence_var = 0.85, drawn = 0\<rparr>"
  have 1: "None \<notin> set (riskFactors (scan_type_rules rnd stype sz nm ?v0))" for sz nm
    by (auto simp add: scan_type_rules_def cranial_rules_def Math_random_def Let_def push_def split: prod.splits)
  have 2: "None \<notin> set (riskFactors (small_file_rule sz v))" if "None \<notin> set (riskFactors v)" for sz v
    using that by (simp add: small_file_rule_def push_def)
  have 3: "None \<notin> set (riskFactors (add_random_factors rnd v))" if "None \<notin> set (riskFactors v)" for v
  proof -
    have "None \<notin> set (riskFactors (v\<lparr>drawn := Suc (drawn v)\<rparr>))" using that by simp
    from random_factors_strings [OF assms this]
    show ?thesis by (simp add: add_random_factors_def Math_random_def Let_def)
  qed
  show ?thesis
    using 3 [OF 2 [OF 1]]
    by (simp add: getRiskAssessment_def Math_random_def Let_def split: prod.splits)
qed

text \<open>
  C3. For every scan type and every file argument (also no file), every random source and
  every clock reading, the \<open>confidence\<close> field of the assessment returned by
  \<open>getRiskAssessment\<close> is 50: it is copied from the literal in \<open>aiInfo\<close>, and the
  confidence the function computes along the way (\<open>confidence_var\<close>) is never read.
\<close>

theorem getRiskAssessment_confidence_50:
  "confidence (getRiskAssessment rnd clk stype file) = 50"
  by (simp add: getRiskAssessment_def Math_random_def Let_def split: prod.splits)

lemma riskLevel_scan_type_rules_high:
  assumes "riskLevel v0 \<noteq> ''high''"
    and "riskLevel (scan_type_rules rnd stype sz nm v0) = ''high''"
  shows "stype = ''CT'' \<and>
     (str_includes nm ''brain'' \<or> str_includes nm ''head'' \<or> str_includes nm ''cranial'')"
  using assms
  by (auto simp add: scan_type_rules_def Math_random_def Let_def split: prod.splits if_splits)

text \<open>
  C10. For every file argument, random source and clock, \<open>getRiskAssessment\<close> called with
  scan type "X-Ray" returns level "low". Whenever the returned level is "high", the scan
  type is "CT" and a file was given whose lower-cased name (the \<open>fileName\<close> the code
  tests) contains "brain", "head" or "cranial". So the level is not drawn uniformly from
  the three levels on every input.
\<close>

theorem getRiskAssessment_xray_low_high_needs_cranial_CT:
  "level (getRiskAssessment rnd clk ''X-Ray'' file) = ''low'' \<and>
   (level (getRiskAssessment rnd clk stype file) = ''high'' \<longrightarrow>
      stype = ''CT'' \<and>
      (\<exists>f. file = Some f \<and>
         (str_includes (toLowerCase (originalname f)) ''brain'' \<or>
          str_includes (toLowerCase (originalname f)) ''head'' \<or>
          str_includes (toLowerCase (originalname f)) ''cranial'')))"
proof (intro conjI impI)
  show "level (getRiskAssessment rnd clk ''X-Ray'' file) = ''low''"
    by (simp add: level_getRiskAssessment scan_type_rules_def)
next
  let ?nm = "case file of Some f \<Rightarrow> toLowerCase (originalname f) | None \<Rightarrow> []"
  assume "level (getRiskAssessment rnd clk stype file) = ''high''"
  then have both: "stype = ''CT'' \<and>
      (str_includes ?nm ''brain'' \<or> str_includes ?nm ''head'' \<or> str_includes ?nm ''cranial'')"
    unfolding level_getRiskAssessment
    by (intro riskLevel_scan_type_rules_high [where rnd = rnd]) simp_all
  then show "stype = ''CT''" by simp
  from both show "\<exists>f. file = Some f \<and>
         (str_includes (toLowerCase (originalname f)) ''brain'' \<or>
          str_includes (toLowerCase (originalname f)) ''head'' \<or>
          str_includes (toLowerCase (originalname f)) ''cranial'')"
    by (cases "file") auto
qed

text \<open>
  The premise of C10 is met: with every draw equal to 0.7, a CT upload named
  \<open>Brain.png\<close> is assessed "high", and the theorem gives the scan type and the name.
\<close>

theorem getRiskAssessment_xray_low_high_needs_cranial_CT_witness:
  "level (getRiskAssessment (constant_draws 0.7)
      \<lparr>now_ms = 0, now_iso = [], current_timestamp = [], start_of_month = [], node_env = None\<rparr> ''CT''
      (Some \<lparr>fieldname = ''scan'', originalname = ''Brain.png'', mimetype = ''image/png'',
             size_bytes = 2048\<rparr>)) = ''high'' \<and>
   (\<exists>f. Some \<lparr>fieldname = ''scan'', originalname = ''Brain.png'', mimetype = ''image/png'',
             size_bytes = 2048\<rparr> = Some f \<and>
      (str_includes (toLowerCase (originalname f)) ''brain'' \<or>
       str_includes (toLowerCase (originalname f)) ''head'' \<or>
       str_includes (toLowerCase (originalname f)) ''cranial''))"
proof -
  have high: "level (getRiskAssessment (constant_draws 0.7)
      \<lparr>now_ms = 0, now_iso = [], current_timestamp = [], start_of_month = [], node_env = None\<rparr> ''CT''
      (Some \<lparr>fieldname = ''scan'', originalname = ''Brain.png'', mimetype = ''image/png'',
             size_bytes = 2048\<rparr>)) = ''high''"
    by (simp add: level_getRiskAssessment scan_type_rules_def cranial_rules_def
        Math_random_def constant_draws_def toLowerCase_def toLowerCase_char_def Let_def)
  with getRiskAssessment_xray_low_high_needs_cranial_CT
    [of "constant_draws 0.7" "\<lparr>now_ms = 0, now_iso = [], current_timestamp = [], start_of_month = [], node_env = None\<rparr>"
        "Some \<lparr>fieldname = ''scan'', originalname = ''Brain.png'', mimetype = ''image/png'',
               size_bytes = 2048\<rparr>" "''CT''"]
  show ?thesis by blast
qed

section \<open>Properties of the slice viewer\<close>

lemma viewer_inv_initial: "viewer_inv (initial_viewer c)"
  by (simp add: viewer_inv_def initial_viewer_def totalSlices_def)

lemma viewer_inv_step: "viewer_inv s \<Longrightarrow> viewer_inv (apply_viewer_op p s)"
  by (cases p)
     (auto simp add: viewer_inv_def nextSlice_def prevSlice_def zoomIn_def zoomOut_def
        resetView_def totalSlices_def)

lemma viewer_inv_run: "viewer_inv s \<Longrightarrow> viewer_inv (run_viewer_ops ps s)"
  by (induction ps arbitrary: s) (simp_all add: viewer_inv_step)

text \<open>
  C9. The initial state (slice 0, zoom 1) satisfies the invariant that \<open>currentSlice\<close>
  lies in 0..\<open>totalSlices - 1\<close> and \<open>zoom\<close> in [0.5, 3]; each of \<open>nextSlice\<close>,
  \<open>prevSlice\<close>, \<open>zoomIn\<close>, \<open>zoomOut\<close> and \<open>resetView\<close> preserves it from any state that
  satisfies it; hence after any sequence of these operations from the initial state the
  slice is in 0..11 and the zoom in [0.5, 3].
\<close>

theorem viewer_ops_preserve_bounds:
  "viewer_inv (initial_viewer c) \<and>
   (viewer_inv s \<longrightarrow> viewer_inv (apply_viewer_op p s)) \<and>
   (let s' = run_viewer_ops ps (initial_viewer c)
    in 0 \<le> currentSlice s' \<and> currentSlice s' \<le> 11 \<and> 0.5 \<le> zoom s' \<and> zoom s' \<le> 3)"
proof -
  have "viewer_inv (run_viewer_ops ps (initial_viewer c))"
    by (rule viewer_inv_run) (rule viewer_inv_initial)
  then show ?thesis
    by (simp add: viewer_inv_initial viewer_inv_step Let_def)
       (simp add: viewer_inv_def totalSlices_def)
qed

text \<open>
  The invariant's premise is met at the upper ends of both ranges (slice 11, zoom 3),
  where \<open>zoomIn\<close> keeps the state within the bounds.
\<close>

theorem viewer_ops_preserve_bounds_witness:
  "viewer_inv ((initial_viewer None)\<lparr>currentSlice := 11, zoom := 3\<rparr>) \<and>
   viewer_inv (apply_viewer_op ZoomIn ((initial_viewer None)\<lparr>currentSlice := 11, zoom := 3\<rparr>))"
proof -
  have pre: "viewer_inv ((initial_viewer None)\<lparr>currentSlice := 11, zoom := 3\<rparr>)"
    by (simp add: viewer_inv_def initial_viewer_def totalSlices_def)
  with viewer_ops_preserve_bounds
    [of None "(initial_viewer None)\<lparr>currentSlice := 11, zoom := 3\<rparr>" ZoomIn "[]"]
  show ?thesis by blast
qed

text \<open>
  C8 as stated fails: the redraw is not a function of the slice index, the overlay
  toggles and the annotation list alone. Pressing zoom-in changes none of the three and
  changes the drawing operations, since every radius is scaled by \<open>zoom\<close>.
\<close>

theorem drawSlice_depends_on_zoom_counterexample:
  "currentSlice (zoomIn (initial_viewer (Some \<lparr>width = 400, height = 400\<rparr>))) =
     currentSlice (initial_viewer (Some \<lparr>width = 400, height = 400\<rparr>)) \<and>
   overlays (zoomIn (initial_viewer (Some \<lparr>width = 400, height = 400\<rparr>))) =
     overlays (initial_viewer (Some \<lparr>width = 400, height = 400\<rparr>)) \<and>
   annotations (zoomIn (initial_viewer (Some \<lparr>width = 400, height = 400\<rparr>))) =
     annotations (initial_viewer (Some \<lparr>width = 400, height = 400\<rparr>)) \<and>
   drawSlice (zoomIn (initial_viewer (Some \<lparr>width = 400, height = 400\<rparr>))) \<noteq>
     drawSlice (initial_viewer (Some \<lparr>width = 400, height = 400\<rparr>))"
  by (simp add: drawSlice_def initial_viewer_def zoomIn_def drawBrainSlice_def Let_def)

text \<open>
  C8, amended. The redraw is a function of the canvas, the slice index, the zoom, the
  show-annotations flag, the overlay toggles and the annotation list: two states equal
  in these give identical sequences of drawing operations. With a canvas the sequence
  is the background fill, the three tissue ellipses (radius
  \<open>120 * zoom * (sin (slice / total * \<pi>) * 0.3 + 0.7)\<close>), the enabled overlays in the order
  ventricles, vessels, contours, and, when annotations are shown, the markers of the
  annotations whose slice is the current one; without a canvas nothing is drawn.
\<close>

theorem drawSlice_determined_by_view:
  "(canvasRef s = canvasRef t \<and> currentSlice s = currentSlice t \<and> zoom s = zoom t \<and>
    showAnnotations s = showAnnotations t \<and> overlays s = overlays t \<and>
    annotations s = annotations t \<longrightarrow> drawSlice s = drawSlice t) \<and>
   drawSlice s =
     (case canvasRef s of
        None \<Rightarrow> []
      | Some cv \<Rightarrow>
          [FillStyle ''#1a1a1a'', FillRect 0 0 (width cv) (height cv)] @
          drawBrainSlice cv (zoom s) (currentSlice s) @
          (if ventricles (overlays s) then drawVentricles cv (zoom s) (currentSlice s) else []) @
          (if vessels (overlays s) then drawVessels cv (zoom s) (currentSlice s) else []) @
          (if contours (overlays s) then drawContours cv (zoom s) (currentSlice s) else []) @
          (if showAnnotations s
           then concat (map (drawMarker cv)
                  (filter (\<lambda>a. ann_slice a = currentSlice s) (annotations s)))
           else [])) \<and>
   drawBrainSlice c z k ! 2 =
     Ellipse (width c / 2) (height c / 2)
       (120 * z * (sin (real_of_int k / real_of_int totalSlices * pi) * 0.3 + 0.7))
       (120 * z * (sin (real_of_int k / real_of_int totalSlices * pi) * 0.3 + 0.7) * 0.9)
       0 0 (2 * pi)"
  by (auto simp add: drawSlice_def drawAnnotations_def drawBrainSlice_def Let_def
      split: option.splits)

text \<open>
  Two states that differ only in the annotation mode agree on everything the redraw
  reads, and draw the same on a 400 by 400 canvas.
\<close>

theorem drawSlice_determined_by_view_witness:
  "drawSlice ((initial_viewer (Some \<lparr>width = 400, height = 400\<rparr>))\<lparr>annotationMode := True\<rparr>) =
   drawSlice (initial_viewer (Some \<lparr>width = 400, height = 400\<rparr>))"
  using drawSlice_determined_by_view
    [of "(initial_viewer (Some \<lparr>width = 400, height = 400\<rparr>))\<lparr>annotationMode := True\<rparr>"
        "initial_viewer (Some \<lparr>width = 400, height = 400\<rparr>)"]
  by (simp add: initial_viewer_def)

section \<open>Properties of the login stub\<close>

text \<open>
  C7 as stated fails: two logins with different emails produce different user objects,
  because the demo user's \<open>email\<close> field is the email argument.
\<close>

theorem login_user_depends_on_email_counterexample:
  "auth_user (login ''a@hospital.com'' ''pw'' \<lparr>auth_user = None, loading = True\<rparr>) \<noteq>
   auth_user (login ''b@hospital.com'' ''pw'' \<lparr>auth_user = None, loading = True\<rparr>)"
  by (simp add: login_def)

text \<open>
  C7, amended. After any login the user has id "1", name "Dr. Smith" and role surgeon,
  whatever the email, the password and the previous state; its email is the email
  argument. So the user produced is independent of the password, and two logins produce
  the same user exactly when their email arguments are equal. The automatic login on
  mount produces the same id, name and role with the fixed email of the demo user.
\<close>

theorem login_fixed_demo_user:
  "auth_user (login e p st) =
     Some \<lparr>user_id = ''1'', name = ''Dr. Smith'', user_role = Surgeon, email = e\<rparr> \<and>
   loading (login e p st) = False \<and>
   ((auth_user (login e1 p1 st1) = auth_user (login e2 p2 st2)) = (e1 = e2)) \<and>
   auth_user (autoLogin st) =
     Some \<lparr>user_id = ''1'', name = ''Dr. Smith'', user_role = Surgeon,
           email = ''dr.smith@hospital.com''\<rparr>"
  by (simp add: login_def autoLogin_def)

section \<open>Properties of the server\<close>

lemma level_one_of_three:
  "level (getRiskAssessment rnd pf stype f) \<in> {''low'', ''medium'', ''high''}"
  by (auto simp add: level_getRiskAssessment scan_type_rules_def cranial_rules_def
      Math_random_def Let_def split: prod.splits)

lemma find_Some_set: "find P xs = Some x \<Longrightarrow> x \<in> set xs \<and> P x"
  by (induction xs) (auto split: if_splits)

lemma upload_single_accepts:
  assumes "fieldname f = ''scan''"
    and "mimetype f \<in> {''image/jpeg'', ''image/png'', ''image/gif''} \<or>
         endsWith (toLowerCase (originalname f)) ''.dcm''"
    and "size_bytes f < 50 * 1024 * 1024"
  shows "upload_single ''scan'' (Some f) = Inr (Some f)"
  using assms
  by (auto simp add: upload_single_def fileFilter_def allowedTypes_def array_includes_def
      fileSize_limit_def Let_def)

text \<open>
  C1 as stated fails: a request with a patient name, a scan type and a one-kilobyte file
  is answered 500 when the file is neither a JPEG, PNG or GIF by its MIME type nor named
  \<open>*.dcm\<close>: the file filter refuses it and the error handler reports an internal error.
\<close>

theorem post_scans_text_file_counterexample:
  "patientName (sample_upload ''notes.txt'' ''text/plain'') = Some ''Test Patient'' \<and>
   scanType (sample_upload ''notes.txt'' ''text/plain'') = Some ''CT'' \<and>
   map_option size_bytes (file_part (sample_upload ''notes.txt'' ''text/plain'')) = Some 1024 \<and>
   fst (post_scans (constant_draws 0) sample_platform sample_database
          (sample_upload ''notes.txt'' ''text/plain'')) =
     send 500 (ErrorInfo ''Internal server error'' ''Something went wrong'')"
  by (simp add: sample_upload_def post_scans_def upload_single_def fileFilter_def
      allowedTypes_def array_includes_def endsWith_def toLowerCase_def toLowerCase_char_def
      errorHandler_def sample_platform_def Let_def)

text \<open>
  C1, amended. For every upload request with a non-empty patient name, a non-empty scan
  type and a file in the form field \<open>scan\<close> that is smaller than 50MB and is accepted by
  the file filter (MIME type \<open>image/jpeg\<close>, \<open>image/png\<close> or \<open>image/gif\<close>, or a name ending
  in \<open>.dcm\<close> in any letter case), \<open>POST /api/scans\<close> answers 201, and the level of the
  returned risk assessment is "low", "medium" or "high".
\<close>

theorem post_scans_valid_upload:
  assumes "patientName req = Some pname" and "pname \<noteq> []"
    and "scanType req = Some stype" and "stype \<noteq> []"
    and "file_part req = Some f" and "fieldname f = ''scan''"
    and "mimetype f \<in> {''image/jpeg'', ''image/png'', ''image/gif''} \<or>
         endsWith (toLowerCase (originalname f)) ''.dcm''"
    and "size_bytes f < 50 * 1024 * 1024"
  shows "\<exists>u. fst (post_scans rnd pf db req) = send 201 (Uploaded u) \<and>
             level (riskAssessment u) \<in> {''low'', ''medium'', ''high''}"
proof -
  have "upload_single ''scan'' (file_part req) = Inr (Some f)"
    using assms(5-8) by (simp add: upload_single_accepts)
  then have "fst (post_scans rnd pf db req) =
      send 201 (Uploaded
        \<lparr>upload_message = ''Scan uploaded successfully'',
         scanId = fst (insert_scan pf db pname stype
                    (level (getRiskAssessment rnd pf stype (Some f))) ''completed''
                    (''uploads/'' @ decimal (now_ms pf) @ ''_'' @ originalname f)
                    (details (getRiskAssessment rnd pf stype (Some f)))),
         riskAssessment = getRiskAssessment rnd pf stype (Some f),
         scan = \<lparr>scan_id = fst (insert_scan pf db pname stype
                    (level (getRiskAssessment rnd pf stype (Some f))) ''completed''
                    (''uploads/'' @ decimal (now_ms pf) @ ''_'' @ originalname f)
                    (details (getRiskAssessment rnd pf stype (Some f)))),
                 patient_name = pname, scan_type = stype,
                 risk_level = level (getRiskAssessment rnd pf stype (Some f)),
                 status = ''completed'', date = now_iso pf\<rparr>\<rparr>)"
    using assms(1-4)
    by (simp add: post_scans_def post_scans_handler_def falsy_def Let_def split: prod.splits)
  then show ?thesis
    using level_one_of_three [of rnd pf stype "Some f"] by auto
qed

text \<open>The hypotheses of the amended C1 hold for a PNG upload of one kilobyte.\<close>

theorem post_scans_valid_upload_witness:
  "\<exists>u. fst (post_scans (constant_draws 0) sample_platform sample_database
               (sample_upload ''scan.png'' ''image/png'')) = send 201 (Uploaded u) \<and>
        level (riskAssessment u) \<in> {''low'', ''medium'', ''high''}"
  by (rule post_scans_valid_upload
        [where pname = "''Test Patient''" and stype = "''CT''"
           and f = "\<lparr>fieldname = ''scan'', originalname = ''scan.png'',
                     mimetype = ''image/png'', size_bytes = 1024\<rparr>"])
     (simp_all add: sample_upload_def)

text \<open>
  C2. Over one database state, \<open>GET /api/stats\<close> and \<open>GET /api/scans\<close> both answer 200,
  and the \<open>totalScans\<close> field of the statistics equals the length of the array of scans.
\<close>

theorem stats_totalScans_eq_length_scans:
  "\<exists>st xs. get_stats pf db = send 200 (Statistics st) \<and>
           get_scans db = send 200 (ScanList xs) \<and>
           totalScans st = length xs"
  by (simp add: get_stats_def get_scans_def send_def count_scans_def select_scans_def)

lemma get_scan_not_found:
  assumes "\<not> (\<exists>r \<in> set (scans db). id_matches conv p r)"
  shows "get_scan conv db p = send 404 (Error ''Scan not found'')"
  using assms
  by (auto simp add: get_scan_def select_scan_def dest: find_Some_set split: option.splits)

lemma get_scan_found:
  assumes "\<exists>r \<in> set (scans db). id_matches conv p r"
  shows "\<exists>r \<in> set (scans db). id_matches conv p r \<and> get_scan conv db p = send 200 (ScanRecord r)"
  using assms
  by (auto simp add: get_scan_def select_scan_def find_None_iff dest: find_Some_set
      split: option.splits)

lemma get_scan_unique:
  assumes "r \<in> set (scans db)" and "id_matches conv p r"
    and "distinct (map scan_id (scans db))"
  shows "get_scan conv db p = send 200 (ScanRecord r)"
proof -
  from assms(1,2) obtain r' where r': "r' \<in> set (scans db)" "id_matches conv p r'"
    and res: "get_scan conv db p = send 200 (ScanRecord r')"
    using get_scan_found [of db conv p] by blast
  from assms(2) r'(2) have "scan_id r' = scan_id r"
    by (simp add: id_matches_def)
  moreover from assms(3) have "inj_on scan_id (set (scans db))"
    by (simp add: distinct_map)
  ultimately have "r' = r"
    using r'(1) assms(1) by (auto dest: inj_onD)
  with res show ?thesis by simp
qed

text \<open>
  C4. When no row of \<open>scans\<close> has the id the request names, \<open>GET /api/scans/:id\<close>
  answers 404. When some row has it, the answer is 200 with a row of that id; with ids
  unique, as the primary key makes them, with the row of that id.
\<close>

theorem get_scan_404_or_record:
  "(\<not> (\<exists>r \<in> set (scans db). id_matches conv p r) \<longrightarrow>
      get_scan conv db p = send 404 (Error ''Scan not found'')) \<and>
   ((\<exists>r \<in> set (scans db). id_matches conv p r) \<longrightarrow>
      (\<exists>r \<in> set (scans db). id_matches conv p r \<and>
         get_scan conv db p = send 200 (ScanRecord r))) \<and>
   (r \<in> set (scans db) \<and> id_matches conv p r \<and> distinct (map scan_id (scans db)) \<longrightarrow>
      get_scan conv db p = send 200 (ScanRecord r))"
  using get_scan_not_found [of db conv p] get_scan_found [of db conv p]
    get_scan_unique [of r db conv p]
  by blast

text \<open>
  On the sample data, id 99 names no scan and is answered 404; id 1 names the first
  sample scan and is answered 200 with that row.
\<close>

theorem get_scan_404_or_record_witness:
  "get_scan plain_integer sample_database ''99'' = send 404 (Error ''Scan not found'') \<and>
   get_scan plain_integer sample_database ''1'' =
     send 200 (ScanRecord (sample_scan 1 ''John Doe'' ''CT'' ''high'' ''completed''
       ''2024-01-15 10:30:00'' ''Cranial CT showing concerning mass near temporal lobe''))"
proof -
  have none: "\<not> (\<exists>r \<in> set (scans sample_database). id_matches plain_integer ''99'' r)"
    by (simp add: sample_database_def sample_scans_def sample_scan_def id_matches_def
        plain_integer_def digit_of_def)
  have one: "sample_scan 1 ''John Doe'' ''CT'' ''high'' ''completed''
       ''2024-01-15 10:30:00'' ''Cranial CT showing concerning mass near temporal lobe''
     \<in> set (scans sample_database) \<and>
     id_matches plain_integer ''1'' (sample_scan 1 ''John Doe'' ''CT'' ''high'' ''completed''
       ''2024-01-15 10:30:00'' ''Cranial CT showing concerning mass near temporal lobe'') \<and>
     distinct (map scan_id (scans sample_database))"
    by (simp add: sample_database_def sample_scans_def sample_scan_def id_matches_def
        plain_integer_def digit_of_def)
  from none one
    get_scan_404_or_record [of sample_database plain_integer "''99''"]
    get_scan_404_or_record [of sample_database plain_integer "''1''"
      "sample_scan 1 ''John Doe'' ''CT'' ''high'' ''completed''
       ''2024-01-15 10:30:00'' ''Cranial CT showing concerning mass near temporal lobe''"]
  show ?thesis by blast
qed

lemma post_annotations_all_keeps_database: "snd (post_annotations_all pf db bs) = db"
proof (induction bs arbitrary: db)
  case Nil
  then show ?case by simp
next
  case (Cons b bs)
  have "snd (post_annotations_all pf db (b # bs)) = snd (post_annotations_all pf db bs)"
    by (simp add: post_annotations_def split: prod.splits)
  then show ?case using Cons.IH by simp
qed

text \<open>
  C5. \<open>POST /api/annotations\<close> answers 201 with the submitted \<open>scanId\<close>, \<open>position\<close>,
  \<open>note\<close> and \<open>type\<close> and leaves the database, so also the \<open>scan_annotations\<close> table, as
  it was. \<open>GET /api/annotations/:scanId\<close> answers 200 with the empty array on every
  database, also after any sequence of such POSTs.
\<close>

theorem annotation_routes_are_stubs:
  "post_annotations pf db b =
     (send 201 (AnnotationSaved
        \<lparr>ack_message = ''Annotation saved successfully'',
         ack_id = ''ann-'' @ decimal (now_ms pf),
         ack_scanId = b ''scanId'', ack_position = b ''position'',
         ack_note = b ''note'', ack_type = b ''type''\<rparr>), db) \<and>
   scan_annotations (snd (post_annotations_all pf db bs)) = scan_annotations db \<and>
   get_annotations db sid = send 200 (AnnotationList []) \<and>
   get_annotations (snd (post_annotations_all pf db bs)) sid = send 200 (AnnotationList [])"
  by (simp add: post_annotations_all_keeps_database)
     (simp add: post_annotations_def get_annotations_def)

lemma update_scan_status_no_match:
  assumes "\<not> (\<exists>r \<in> set (scans db). id_matches conv p r)"
  shows "snd (update_scan_status conv db st p) = db"
proof -
  from assms have "map (\<lambda>r. if id_matches conv p r then r\<lparr>status := st\<rparr> else r) (scans db) =
      scans db"
    by (induction "scans db") (auto simp add: map_idI)
  then show ?thesis by (simp add: update_scan_status_def)
qed

text \<open>
  C6. \<open>POST /api/scans/:id/status\<close> answers 400 and leaves the database unchanged when
  the submitted status is not one of "pending", "completed", "failed" (a value that is
  no string, or absent, included). When it is one of the three, the answer is 200 for
  every id; if no scan has the id, the answer is still 200 and the database is unchanged.
\<close>

theorem post_scan_status_400_or_200:
  "(req_body ''status'' \<notin> {JString ''pending'', JString ''completed'', JString ''failed''} \<longrightarrow>
      post_scan_status conv db p req_body = (send 400 (Error ''Invalid status''), db)) \<and>
   (req_body ''status'' \<in> {JString ''pending'', JString ''completed'', JString ''failed''} \<longrightarrow>
      fst (post_scan_status conv db p req_body) =
        send 200 (Message ''Status updated successfully'') \<and>
      (\<not> (\<exists>r \<in> set (scans db). id_matches conv p r) \<longrightarrow>
         snd (post_scan_status conv db p req_body) = db))"
  by (auto simp add: post_scan_status_def update_scan_status_no_match)

text \<open>
  On the sample data: the status "archived" is refused with 400; "failed" for id 99,
  which names no scan, is answered 200 and changes nothing.
\<close>

theorem post_scan_status_400_or_200_witness:
  "post_scan_status plain_integer sample_database ''1'' (js_object [(''status'', JString ''archived'')]) =
     (send 400 (Error ''Invalid status''), sample_database) \<and>
   post_scan_status plain_integer sample_database ''99'' (js_object [(''status'', JString ''failed'')]) =
     (send 200 (Message ''Status updated successfully''), sample_database)"
proof -
  have none: "\<not> (\<exists>r \<in> set (scans sample_database). id_matches plain_integer ''99'' r)"
    by (simp add: sample_database_def sample_scans_def sample_scan_def id_matches_def
        plain_integer_def digit_of_def)
  from none
    post_scan_status_400_or_200 [of "js_object [(''status'', JString ''archived'')]"
      plain_integer sample_database "''1''"]
    post_scan_status_400_or_200 [of "js_object [(''status'', JString ''failed'')]"
      plain_integer sample_database "''99''"]
  show ?thesis by (simp add: prod_eq_iff js_object_def)
qed

end
